theory Spec2Isabelle
  imports Main
begin

section \<open>JavaScript values and string operations used by the worker\<close>

text \<open>
  Strings are lists of code units, taken here as HOL's 8-bit characters: splitting,
  \<open>substr\<close>, \<open>startsWith\<close> and \<open>includes\<close> compare units only, and the one place that
  looks at the value of a unit is the class \<open>\S\<close> of the regular expression. A query
  parameter, a header or a destructured argument that may be \<open>null\<close> or \<open>undefined\<close> is a
  \<open>string option\<close>, with \<open>None\<close> for the absent value.
\<close>

definition truthy :: "string option \<Rightarrow> bool" where
  \<comment> \<open>JavaScript truthiness of a string-or-null: \<open>null\<close> and \<open>""\<close> are falsy.\<close>
  "truthy v = (case v of None \<Rightarrow> False | Some s \<Rightarrow> s \<noteq> [])"

definition js_or :: "string option \<Rightarrow> string option \<Rightarrow> string option" where
  \<comment> \<open>\<open>a || b\<close>: the left operand when it is truthy, the right operand otherwise.\<close>
  "js_or a b = (if truthy a then a else b)"

definition str :: "string option \<Rightarrow> string" where
  \<comment> \<open>Interpolation \<open>${v}\<close> of a string-or-null in a template literal.\<close>
  "str v = (case v of None \<Rightarrow> ''null'' | Some s \<Rightarrow> s)"

fun nth_opt :: "'a list \<Rightarrow> nat \<Rightarrow> 'a option" where
  \<comment> \<open>Array indexing \<open>a[i]\<close>: \<open>undefined\<close> (here \<open>None\<close>) out of range.\<close>
  "nth_opt [] i = None"
| "nth_opt (x # xs) 0 = Some x"
| "nth_opt (x # xs) (Suc i) = nth_opt xs i"

fun split_on :: "char \<Rightarrow> string \<Rightarrow> string list" where
  \<comment> \<open>\<open>s.split(c)\<close> for a one-character separator: one more piece than separators.\<close>
  "split_on c [] = [ [] ]"
| "split_on c (x # xs) =
     (if x = c then [] # split_on c xs
      else (case split_on c xs of
              [] \<Rightarrow> [ [x] ]
            | w # ws \<Rightarrow> (x # w) # ws))"

definition starts_with :: "string \<Rightarrow> string \<Rightarrow> bool" where
  \<comment> \<open>\<open>s.startsWith(p)\<close>\<close>
  "starts_with s p = (take (length p) s = p)"

definition substr :: "nat \<Rightarrow> string \<Rightarrow> string" where
  \<comment> \<open>\<open>s.substr(n)\<close>: the string from index \<open>n\<close> on, empty when \<open>n\<close> is past the end.\<close>
  "substr n s = drop n s"

fun join :: "string \<Rightarrow> string list \<Rightarrow> string" where
  \<comment> \<open>\<open>a.join(sep)\<close>; an array of strings in a template literal is \<open>a.join(',')\<close>.\<close>
  "join sep [] = []"
| "join sep [x] = x"
| "join sep (x # y # ys) = x @ sep @ join sep (y # ys)"

fun string_of_nat :: "nat \<Rightarrow> string" where
  \<comment> \<open>Interpolation of a non-negative integer: its decimal digits.\<close>
  "string_of_nat n =
     (if n < 10 then [char_of (48 + n)]
      else string_of_nat (n div 10) @ [char_of (48 + n mod 10)])"

declare string_of_nat.simps [simp del]

definition is_space :: "char \<Rightarrow> bool" where
  \<comment> \<open>The code units below 256 that the regular expression class \<open>\s\<close> contains:
      TAB, LF, VT, FF, CR, SPACE and NBSP.\<close>
  "is_space c = (c \<in> set [CHR 0x09, CHR 0x0A, CHR 0x0B, CHR 0x0C, CHR 0x0D, CHR 0x20, CHR 0xA0])"

fun match_symref :: "string \<Rightarrow> string option" where
  \<comment> \<open>\<open>s.match(/symref=HEAD:(\S+)/)\<close>: \<open>None\<close> for \<open>null\<close>, otherwise capture group 1
      of the leftmost match, the longest run of non-space units after the literal.\<close>
  "match_symref [] = None"
| "match_symref (c # cs) =
     (let capture = takeWhile (\<lambda>x. \<not> is_space x) (drop 12 (c # cs))
      in if starts_with (c # cs) ''symref=HEAD:'' \<and> capture \<noteq> [] then Some capture
         else match_symref cs)"

definition b64_digit :: "nat \<Rightarrow> char" where
  "b64_digit n = ''ABCDEFGHIJKLMNOPQRSTUVWXYZabcdefghijklmnopqrstuvwxyz0123456789+/'' ! (n mod 64)"

fun btoa :: "string \<Rightarrow> string" where
  \<comment> \<open>The platform's \<open>btoa\<close>: base64 of a string of 8-bit units, padded with \<open>=\<close>.\<close>
  "btoa (a # b # c # rest) =
     (let n = (of_char a * 256 + of_char b) * 256 + of_char c
      in [b64_digit (n div 262144), b64_digit (n div 4096), b64_digit (n div 64), b64_digit n]
         @ btoa rest)"
| "btoa [a, b] =
     (let n = (of_char a * 256 + of_char b) * 256
      in [b64_digit (n div 262144), b64_digit (n div 4096), b64_digit (n div 64), CHR ''=''])"
| "btoa [a] =
     (let n = of_char a * 65536
      in [b64_digit (n div 262144), b64_digit (n div 4096), CHR ''='', CHR ''=''])"
| "btoa [] = []"

section \<open>Errors, the remote service and the transport\<close>

datatype js_error =
    TypeError string
  | RangeError string
  | Error string "nat option"
  \<comment> \<open>\<open>Error msg st\<close>: an \<open>Error\<close> with message \<open>msg\<close>; \<open>st\<close> is its \<open>status\<close> property,
      \<open>None\<close> when the property was never set.\<close>

definition error_to_string :: "js_error \<Rightarrow> string" where
  \<comment> \<open>Interpolation \<open>${err}\<close>: the error's name, then \<open>": "\<close> and its message unless the
      message is empty.\<close>
  "error_to_string e =
     (let (name, msg) = (case e of
                           TypeError m \<Rightarrow> (''TypeError'', m)
                         | RangeError m \<Rightarrow> (''RangeError'', m)
                         | Error m st \<Rightarrow> (''Error'', m))
      in if msg = [] then name else name @ '': '' @ msg)"

definition null_index_message :: string where
  \<comment> \<open>The engine's message for reading index 1 of \<open>null\<close> (V8's wording).\<close>
  "null_index_message =
     ''Cannot read properties of null (reading '' @ [CHR 0x27, CHR ''1'', CHR 0x27] @ '')''"

definition response_status_message :: string where
  \<comment> \<open>The platform's message when a \<open>Response\<close> is constructed with a status outside
      200 to 599.\<close>
  "response_status_message = ''Responses may only be constructed with status codes in the range 200 to 599, inclusive.''"

definition null_body_message :: string where
  \<comment> \<open>The platform's message when a \<open>Response\<close> with a body is constructed with a null
      body status.\<close>
  "null_body_message = ''Response with null body status (101, 204, 205, or 304) cannot have a body.''"

record fetch_request =
  url :: string
  authorization :: "string option"

text \<open>
  A fetched response is its status and the text that \<open>resp.text()\<close> delivers.
\<close>

record fetch_response =
  resp_status :: nat
  resp_text :: string

definition resp_ok :: "fetch_response \<Rightarrow> bool" where
  \<comment> \<open>\<open>resp.ok\<close>: the status is in the range 200 to 299.\<close>
  "resp_ok resp = (200 \<le> resp_status resp \<and> resp_status resp \<le> 299)"

type_synonym fetch = "fetch_request \<Rightarrow> js_error + fetch_response"

record request =
  searchParams :: "(string \<times> string) list"
  headers :: "(string \<times> string) list"

definition get :: "(string \<times> string) list \<Rightarrow> string \<Rightarrow> string option" where
  \<comment> \<open>\<open>params.get(k)\<close>, \<open>headers.get(k)\<close>: the first value under the name, or \<open>null\<close>.\<close>
  "get kvs k = map_of kvs k"

record resolve_args =
  owner :: "string option"
  repo :: "string option"
  ref :: "string option"
  token :: "string option"

record resolution =
  sha :: "string option"
  fqRef :: "string option"

datatype payload = Json resolution | Text string
  \<comment> \<open>\<open>Json r\<close> stands for the text \<open>JSON.stringify(r)\<close>.\<close>

record response =
  status :: nat
  content_type :: string
  body :: payload

definition null_body_status :: "nat \<Rightarrow> bool" where
  \<comment> \<open>The statuses of a response that cannot have a body.\<close>
  "null_body_status st = (st \<in> set [101, 103, 204, 205, 304])"

definition new_response :: "payload \<Rightarrow> nat \<Rightarrow> string \<Rightarrow> js_error + response" where
  \<comment> \<open>\<open>new Response(body, {status, headers: {'content-type': ct}})\<close> with a body that is a
      string, as at every call of the worker, and a status below 65536, as every status of
      a fetched response is. The constructor first throws a \<open>RangeError\<close> for a status
      outside 200 to 599, then a \<open>TypeError\<close> when the body is not \<open>null\<close> and the status is
      a null body status.\<close>
  "new_response b st ct =
     (if \<not> (200 \<le> st \<and> st \<le> 599) then Inl (RangeError response_status_message)
      else if null_body_status st then Inl (TypeError null_body_message)
      else Inr \<lparr>status = st, content_type = ct, body = b\<rparr>)"

section \<open>The reference resolver\<close>

definition ref_search_terms :: "string option \<Rightarrow> string list" where
  \<comment> \<open>The search terms pushed while \<open>ref\<close> is inspected, in insertion order.\<close>
  "ref_search_terms refname =
     (case refname of
        None \<Rightarrow> []
      | Some r \<Rightarrow>
          if r = [] then []
          else if starts_with r ''refs/'' then [r]
          else [''refs/heads/'' @ r, ''refs/tags/'' @ r])"

definition row_matches :: "string list \<Rightarrow> string \<Rightarrow> bool" where
  \<comment> \<open>The filter predicate: exactly two space-separated parts, the second a search term.\<close>
  "row_matches searchTerms row =
     (let parts = split_on CHR '' '' row
      in length parts = 2 \<and> parts ! 1 \<in> set searchTerms)"

definition row_entry :: "string \<Rightarrow> string list" where
  \<comment> \<open>The map function: skip the leading pkt-len (4 units), then split on the space.\<close>
  "row_entry row = split_on CHR '' '' (substr 4 row)"

definition result_rows :: "string list \<Rightarrow> string list \<Rightarrow> string list list" where
  "result_rows searchTerms lines = map row_entry (filter (row_matches searchTerms) lines)"

definition select_ref :: "string list \<Rightarrow> string list \<Rightarrow> resolution option" where
  \<comment> \<open>The first result row as \<open>{sha, fqRef}\<close>, or \<open>null\<close> when there is none.\<close>
  "select_ref searchTerms lines =
     (case result_rows searchTerms lines of
        [] \<Rightarrow> None
      | r # _ \<Rightarrow> Some \<lparr>sha = nth_opt r 0, fqRef = nth_opt r 1\<rparr>)"

definition default_branch_terms :: "string option \<Rightarrow> string list \<Rightarrow> js_error + string list" where
  \<comment> \<open>The block \<open>if (!ref) { searchTerms.push(lines[1].match(...)[1]) }\<close>: the terms it
      pushes, or the \<open>TypeError\<close> of indexing \<open>null\<close> when the pattern does not match.\<close>
  "default_branch_terms refname lines =
     (if \<not> truthy refname
      then (case match_symref (lines ! 1) of
              None \<Rightarrow> Inl (TypeError null_index_message)
            | Some branch \<Rightarrow> Inr [branch])
      else Inr [])"

definition parse_advertisement :: "string option \<Rightarrow> string \<Rightarrow> js_error + resolution option" where
  \<comment> \<open>The part of \<open>resolve\<close> after the response body has been read.\<close>
  "parse_advertisement refname data =
     (let searchTerms = ref_search_terms refname;
          lines = split_on CHR 0x0A data
      in if length lines < 3
         then Inl (Error (''corrupted response: '' @ join '','' lines) None)
         else (case default_branch_terms refname lines of
                 Inl e \<Rightarrow> Inl e
               | Inr pushed \<Rightarrow> Inr (select_ref (searchTerms @ pushed) (drop 2 lines))))"

definition discovery_request :: "resolve_args \<Rightarrow> fetch_request" where
  \<comment> \<open>\<open>url\<close> and \<open>opts\<close>: basic auth with any user name and the token as password.\<close>
  "discovery_request args =
     \<lparr>url = ''https://github.com/'' @ str (owner args) @ ''/'' @ str (repo args)
             @ ''.git/info/refs?service=git-upload-pack'',
      authorization =
        (if truthy (token args)
         then Some (''Basic '' @ btoa (''any_user:'' @ str (token args)))
         else None)\<rparr>"

definition resolve :: "fetch \<Rightarrow> resolve_args \<Rightarrow> (js_error + resolution option) \<times> fetch_request list" where
  \<comment> \<open>The outcome of the promise (\<open>Inl\<close> a rejection) and the requests issued to the remote
      service, in order.\<close>
  "resolve fetch args =
     (if \<not> truthy (owner args) \<or> \<not> truthy (repo args)
      then (Inl (TypeError ''owner and repo are mandatory parameters''), [])
      else
        (case fetch (discovery_request args) of
           Inl e \<Rightarrow> (Inl e, [discovery_request args])
         | Inr resp \<Rightarrow>
             if \<not> resp_ok resp
             then if (resp_status resp = 401 \<and> \<not> truthy (token args)) \<or> resp_status resp = 404
                  then (Inl (Error (''repository not found: '' @ str (owner args) @ ''/''
                                      @ str (repo args)) (Some 404)),
                        [discovery_request args])
                  else (Inl (Error (''failed to fetch git repo info (status: ''
                                      @ string_of_nat (resp_status resp) @ '', body: ''
                                      @ resp_text resp @ '')'') (Some (resp_status resp))),
                        [discovery_request args])
             else (parse_advertisement (ref args) (resp_text resp), [discovery_request args])))"

section \<open>The request adapter\<close>

definition request_token :: "request \<Rightarrow> string option" where
  "request_token request =
     js_or (get (searchParams request) ''GITHUB_TOKEN'') (get (headers request) ''x-github-token'')"

definition request_args :: "request \<Rightarrow> resolve_args" where
  "request_args request =
     \<lparr>owner = get (searchParams request) ''owner'',
      repo = get (searchParams request) ''repo'',
      ref = get (searchParams request) ''ref'',
      token = request_token request\<rparr>"

definition respond :: "js_error + resolution option \<Rightarrow> js_error + response" where
  \<comment> \<open>The \<open>then\<close> and \<open>catch\<close> handlers on the promise of \<open>resolve\<close>.\<close>
  "respond outcome =
     (case outcome of
        Inr (Some result) \<Rightarrow> new_response (Json result) 200 ''application/json''
      | Inr None \<Rightarrow> new_response (Text ''ref not found'') 404 ''text/plain''
      | Inl (TypeError msg) \<Rightarrow> new_response (Text msg) 400 ''text/plain''
      | Inl err \<Rightarrow>
          (case (case err of Error msg (Some st) \<Rightarrow> if st \<noteq> 0 then Some (st, msg) else None
                           | _ \<Rightarrow> None) of
             Some (st, msg) \<Rightarrow>
               new_response
                 (Text (''failed to fetch git repo info (status: '' @ string_of_nat st
                        @ '', message: '' @ msg @ '')''))
                 (if 500 \<le> st \<and> st \<le> 599 then 502 else st) ''text/plain''
           | None \<Rightarrow>
               new_response
                 (Text (''failed to fetch git repo info: '' @ error_to_string err @ '')''))
                 500 ''text/plain''))"

definition handleRequest :: "fetch \<Rightarrow> request \<Rightarrow> (js_error + response) \<times> fetch_request list" where
  \<comment> \<open>The response, or the rejection when a handler itself throws, and the requests issued.\<close>
  "handleRequest fetch request =
     (let (outcome, issued) = resolve fetch (request_args request)
      in (respond outcome, issued))"

section \<open>Fixtures\<close>

definition constant_server :: "nat \<Rightarrow> string \<Rightarrow> fetch" where
  \<comment> \<open>A remote service that answers every request with the same status and body.\<close>
  "constant_server st text req = Inr \<lparr>resp_status = st, resp_text = text\<rparr>"

definition sample_advertisement :: string where
  \<comment> \<open>An advertisement in the shape the remote service sends: two header lines, one
      line per reference, the flush packet. The hashes are shortened.\<close>
  "sample_advertisement =
     ''001e# service=git-upload-pack\<newline>0000 HEAD symref=HEAD:refs/heads/main agent=git\<newline>003daaaa refs/heads/main\<newline>003dbbbb refs/tags/main\<newline>003ecccc refs/heads/v1.0.0\<newline>003ddddd refs/tags/v1.0.0\<newline>0000''"

definition tag_first_advertisement :: string where
  \<comment> \<open>An advertisement that lists the tag \<open>main\<close> before the branch \<open>main\<close>.\<close>
  "tag_first_advertisement =
     ''001e# service=git-upload-pack\<newline>0000 HEAD symref=HEAD:refs/heads/main agent=git\<newline>003dbbbb refs/tags/main\<newline>003daaaa refs/heads/main\<newline>0000''"

definition short_prefix_advertisement :: string where
  \<comment> \<open>An advertisement with a reference line whose first part has two units only.\<close>
  "short_prefix_advertisement =
     ''001e# service=git-upload-pack\<newline>0000 HEAD symref=HEAD:refs/heads/main agent=git\<newline>ab refs/heads/x\<newline>0000''"

definition short_tag_first_advertisement :: string where
  \<comment> \<open>The tag \<open>main\<close>, on a line whose first part has two units only, before the branch
      \<open>main\<close>.\<close>
  "short_tag_first_advertisement =
     ''001e# service=git-upload-pack\<newline>0000 HEAD symref=HEAD:refs/heads/main agent=git\<newline>ab refs/tags/main\<newline>003daaaa refs/heads/main\<newline>0000''"

definition tag_on_second_line_advertisement :: string where
  \<comment> \<open>The tag \<open>main\<close> on the second line of the body, the branch \<open>main\<close> on the third.\<close>
  "tag_on_second_line_advertisement =
     ''001e# service=git-upload-pack\<newline>003dbbbb refs/tags/main\<newline>003daaaa refs/heads/main\<newline>0000''"

section \<open>Basic facts about the string operations\<close>

lemma truthy_iff: "truthy v \<longleftrightarrow> (\<exists>s. v = Some s \<and> s \<noteq> [])"
  by (cases v) (simp_all add: truthy_def)

lemma split_on_not_Nil: "split_on c s \<noteq> []"
  by (induction s) (auto split: list.splits)

lemma split_on_no_sep: "c \<notin> set s \<Longrightarrow> split_on c s = [s]"
  by (induction s) auto

lemma split_on_append: "c \<notin> set a \<Longrightarrow> split_on c (a @ c # b) = a # split_on c b"
  by (induction a) auto

lemma split_on_single: "split_on c s = [a] \<Longrightarrow> s = a \<and> c \<notin> set a"
proof (induction s arbitrary: a)
  case Nil
  then show ?case by simp
next
  case (Cons x xs)
  then show ?case
    by (auto split: if_splits list.splits simp: split_on_not_Nil)
qed

lemma split_on_Cons:
  "split_on c s = a # b # rest \<Longrightarrow> \<exists>t. s = a @ c # t \<and> c \<notin> set a \<and> split_on c t = b # rest"
proof (induction s arbitrary: a)
  case Nil
  then show ?case by simp
next
  case (Cons x xs)
  show ?case
  proof (cases "x = c")
    case True
    with Cons.prems show ?thesis by auto
  next
    case False
    with Cons.prems obtain w where w: "split_on c xs = w # b # rest" and a: "a = x # w"
      by (auto split: list.splits)
    from Cons.IH [OF w] obtain t where "xs = w @ c # t" "c \<notin> set w" "split_on c t = b # rest"
      by blast
    with a False show ?thesis by auto
  qed
qed

lemma split_on_two:
  "split_on c s = [a, b] \<longleftrightarrow> s = a @ c # b \<and> c \<notin> set a \<and> c \<notin> set b"
proof
  assume "split_on c s = [a, b]"
  then obtain t where t: "s = a @ c # t" "c \<notin> set a" "split_on c t = [b]"
    using split_on_Cons by blast
  with split_on_single [of c t b] show "s = a @ c # b \<and> c \<notin> set a \<and> c \<notin> set b"
    by simp
next
  assume "s = a @ c # b \<and> c \<notin> set a \<and> c \<notin> set b"
  then show "split_on c s = [a, b]"
    by (simp add: split_on_append split_on_no_sep)
qed

lemma string_of_nat_404: "string_of_nat 404 = ''404''"
  by code_simp

lemma handleRequest_eq:
  "handleRequest fetch request =
     (respond (fst (resolve fetch (request_args request))), snd (resolve fetch (request_args request)))"
  by (simp add: handleRequest_def split: prod.splits)

section \<open>Validation of the mandatory parameters\<close>

text \<open>
  Claim C6. When \<open>owner\<close> or \<open>repo\<close> is absent or the empty string, \<open>resolve\<close> rejects
  with the \<open>TypeError\<close> of the validation and has issued no request to the remote
  service, whatever that service would answer; the adapter turns the rejection into a
  plain-text response with status 400.
\<close>

theorem resolve_rejects_missing_owner_or_repo:
  assumes "owner args = None \<or> owner args = Some [] \<or> repo args = None \<or> repo args = Some []"
    and "request_args request = args"
  shows "resolve fetch args = (Inl (TypeError ''owner and repo are mandatory parameters''), [])
     \<and> handleRequest fetch request =
         (Inr \<lparr>status = 400, content_type = ''text/plain'',
               body = Text ''owner and repo are mandatory parameters''\<rparr>, [])"
proof -
  from assms(1) have "\<not> truthy (owner args) \<or> \<not> truthy (repo args)"
    by (auto simp: truthy_def)
  then have r: "resolve fetch args = (Inl (TypeError ''owner and repo are mandatory parameters''), [])"
    by (auto simp: resolve_def)
  with assms(2) show ?thesis
    by (simp add: handleRequest_eq respond_def new_response_def null_body_status_def)
qed

theorem resolve_rejects_missing_owner_or_repo_witness:
  "resolve (constant_server 200 ''x'') \<lparr>owner = Some ''adobe'', repo = Some [], ref = Some ''main'', token = None\<rparr>
     = (Inl (TypeError ''owner and repo are mandatory parameters''), [])
   \<and> handleRequest (constant_server 200 ''x'')
       \<lparr>searchParams = [(''owner'', ''adobe''), (''repo'', []), (''ref'', ''main'')], headers = []\<rparr>
     = (Inr \<lparr>status = 400, content_type = ''text/plain'',
             body = Text ''owner and repo are mandatory parameters''\<rparr>, [])"
  using resolve_rejects_missing_owner_or_repo
    [of "\<lparr>owner = Some ''adobe'', repo = Some [], ref = Some ''main'', token = None\<rparr>"
        "\<lparr>searchParams = [(''owner'', ''adobe''), (''repo'', []), (''ref'', ''main'')], headers = []\<rparr>"
        "constant_server 200 ''x''"]
  by (simp add: request_args_def request_token_def get_def js_or_def truthy_def)

section \<open>Decimal digits and the default-branch pattern\<close>

lemma string_of_nat_600: "string_of_nat 600 = ''600''"
  by code_simp

lemma string_of_nat_500: "string_of_nat 500 = ''500''"
  by code_simp

lemma string_of_nat_304: "string_of_nat 304 = ''304''"
  by code_simp


lemma starts_with_iff: "starts_with s p \<longleftrightarrow> (\<exists>t. s = p @ t)"
  unfolding starts_with_def by (metis append_eq_conv_conj append_take_drop_id)



section \<open>Outcomes of \<open>resolve\<close> and of the handlers\<close>

lemma respond_status_error:
  "st \<noteq> 0 \<Longrightarrow> respond (Inl (Error msg (Some st))) =
     new_response
       (Text (''failed to fetch git repo info (status: '' @ string_of_nat st
              @ '', message: '' @ msg @ '')''))
       (if 500 \<le> st \<and> st \<le> 599 then 502 else st) ''text/plain''"
  by (simp add: respond_def)

lemma respond_plain_error:
  "respond (Inl (Error msg None)) =
     new_response (Text (''failed to fetch git repo info: '' @ error_to_string (Error msg None) @ '')''))
       500 ''text/plain''"
  by (simp add: respond_def)

lemma resolve_fetched:
  assumes "truthy (owner args)" and "truthy (repo args)"
    and "fetch (discovery_request args) = Inr resp"
  shows "resolve fetch args =
     (if \<not> resp_ok resp
      then if (resp_status resp = 401 \<and> \<not> truthy (token args)) \<or> resp_status resp = 404
           then Inl (Error (''repository not found: '' @ str (owner args) @ ''/''
                              @ str (repo args)) (Some 404))
           else Inl (Error (''failed to fetch git repo info (status: ''
                              @ string_of_nat (resp_status resp) @ '', body: ''
                              @ resp_text resp @ '')'') (Some (resp_status resp)))
      else parse_advertisement (ref args) (resp_text resp),
      [discovery_request args])"
  using assms by (simp add: resolve_def)

section \<open>The credential\<close>

text \<open>
  Claim C1, as amended. The adapter evaluates
  \<open>params.get('GITHUB_TOKEN') || request.headers.get('x-github-token')\<close>: when the
  \<open>GITHUB_TOKEN\<close> parameter is present and non-empty, the credential passed to the resolver
  is the parameter value, whatever the header holds; the value of the \<open>x-github-token\<close>
  header is passed only when the parameter is absent or empty.
\<close>

theorem credential_parameter_first:
  "(\<forall>p. get (searchParams request) ''GITHUB_TOKEN'' = Some p \<and> p \<noteq> []
        \<longrightarrow> token (request_args request) = Some p)
   \<and> (get (searchParams request) ''GITHUB_TOKEN'' = None
        \<or> get (searchParams request) ''GITHUB_TOKEN'' = Some []
        \<longrightarrow> token (request_args request) = get (headers request) ''x-github-token'')"
  by (auto simp: request_args_def request_token_def js_or_def truthy_def)

theorem credential_parameter_first_witness:
  "token (request_args \<lparr>searchParams = [(''GITHUB_TOKEN'', ''p'')],
                         headers = [(''x-github-token'', ''h'')]\<rparr>) = Some ''p''
   \<and> token (request_args \<lparr>searchParams = [(''owner'', ''adobe'')],
                           headers = [(''x-github-token'', ''h'')]\<rparr>) = Some ''h''"
proof -
  let ?both = "\<lparr>searchParams = [(''GITHUB_TOKEN'', ''p'')], headers = [(''x-github-token'', ''h'')]\<rparr>"
  let ?header = "\<lparr>searchParams = [(''owner'', ''adobe'')], headers = [(''x-github-token'', ''h'')]\<rparr>"
  have "token (request_args ?both) = Some ''p''"
    using credential_parameter_first [of ?both] by (simp add: get_def)
  moreover have "token (request_args ?header) = Some ''h''"
    using credential_parameter_first [of ?header] by (simp add: get_def)
  ultimately show ?thesis by simp
qed

text \<open>
  The claim as the specification words it (the header value wins when both are present)
  fails: with parameter \<open>p\<close> and header \<open>h\<close> the resolver receives \<open>p\<close>, and the
  request to the remote service is authorised with \<open>p\<close>.
\<close>

theorem credential_header_first_counterexample:
  "get (searchParams \<lparr>searchParams = [(''owner'', ''adobe''), (''repo'', ''helix-fetch''),
                                       (''GITHUB_TOKEN'', ''p'')],
                       headers = [(''x-github-token'', ''h'')]\<rparr>) ''GITHUB_TOKEN'' = Some ''p''
   \<and> get (headers \<lparr>searchParams = [(''owner'', ''adobe''), (''repo'', ''helix-fetch''),
                                    (''GITHUB_TOKEN'', ''p'')],
                    headers = [(''x-github-token'', ''h'')]\<rparr>) ''x-github-token'' = Some ''h''
   \<and> token (request_args \<lparr>searchParams = [(''owner'', ''adobe''), (''repo'', ''helix-fetch''),
                                           (''GITHUB_TOKEN'', ''p'')],
                           headers = [(''x-github-token'', ''h'')]\<rparr>) = Some ''p''
   \<and> token (request_args \<lparr>searchParams = [(''owner'', ''adobe''), (''repo'', ''helix-fetch''),
                                           (''GITHUB_TOKEN'', ''p'')],
                           headers = [(''x-github-token'', ''h'')]\<rparr>) \<noteq> Some ''h''
   \<and> map authorization
        (snd (handleRequest (constant_server 404 [])
               \<lparr>searchParams = [(''owner'', ''adobe''), (''repo'', ''helix-fetch''),
                                (''GITHUB_TOKEN'', ''p'')],
                headers = [(''x-github-token'', ''h'')]\<rparr>))
       = [Some (''Basic '' @ btoa ''any_user:p'')]"
  by (simp add: request_args_def request_token_def get_def js_or_def truthy_def
      handleRequest_eq resolve_def constant_server_def discovery_request_def str_def resp_ok_def)

section \<open>Failures of the remote service\<close>

text \<open>
  Claim C4. When the remote service answers the discovery request with status 404, or with
  status 401 while no credential was supplied (the token is absent or empty), \<open>resolve\<close>
  rejects with an error that carries status 404 and the message
  \<open>repository not found: <owner>/<repo>\<close>; the response of the adapter has status 404 and
  a body that quotes that message.
\<close>

theorem repository_not_found:
  assumes "owner args = Some ow" and "ow \<noteq> []" and "repo args = Some rp" and "rp \<noteq> []"
    and "fetch (discovery_request args) = Inr resp"
    and "resp_status resp = 404 \<or> (resp_status resp = 401 \<and> (token args = None \<or> token args = Some []))"
    and "request_args request = args"
  shows "resolve fetch args =
           (Inl (Error (''repository not found: '' @ ow @ ''/'' @ rp) (Some 404)),
            [discovery_request args])
     \<and> fst (handleRequest fetch request) =
           Inr \<lparr>status = 404, content_type = ''text/plain'',
                body = Text (''failed to fetch git repo info (status: 404, message: ''
                             @ ''repository not found: '' @ ow @ ''/'' @ rp @ '')'')\<rparr>"
proof -
  have t: "truthy (owner args)" "truthy (repo args)"
    using assms(1-4) by (simp_all add: truthy_def)
  have nok: "\<not> resp_ok resp"
    using assms(6) by (auto simp: resp_ok_def)
  have norm: "(resp_status resp = 401 \<and> \<not> truthy (token args)) \<or> resp_status resp = 404"
    using assms(6) by (auto simp: truthy_def)
  have r: "resolve fetch args =
           (Inl (Error (''repository not found: '' @ ow @ ''/'' @ rp) (Some 404)),
            [discovery_request args])"
    using resolve_fetched [of args fetch resp] t assms(5) nok norm assms(1,3) by (simp add: str_def)
  have "respond (Inl (Error (''repository not found: '' @ ow @ ''/'' @ rp) (Some 404))) =
          Inr \<lparr>status = 404, content_type = ''text/plain'',
               body = Text (''failed to fetch git repo info (status: 404, message: ''
                            @ ''repository not found: '' @ ow @ ''/'' @ rp @ '')'')\<rparr>"
    by (simp add: respond_status_error new_response_def null_body_status_def string_of_nat_404)
  with r assms(7) show ?thesis
    by (simp add: handleRequest_eq)
qed

theorem repository_not_found_witness:
  "resolve (constant_server 401 ''denied'')
       \<lparr>owner = Some ''adobe'', repo = Some ''helix-fetch'', ref = None, token = None\<rparr> =
     (Inl (Error ''repository not found: adobe/helix-fetch'' (Some 404)),
      [discovery_request \<lparr>owner = Some ''adobe'', repo = Some ''helix-fetch'', ref = None, token = None\<rparr>])
   \<and> fst (handleRequest (constant_server 401 ''denied'')
            \<lparr>searchParams = [(''owner'', ''adobe''), (''repo'', ''helix-fetch'')], headers = []\<rparr>) =
     Inr \<lparr>status = 404, content_type = ''text/plain'',
          body = Text ''failed to fetch git repo info (status: 404, message: repository not found: adobe/helix-fetch)''\<rparr>"
  using repository_not_found
    [of "\<lparr>owner = Some ''adobe'', repo = Some ''helix-fetch'', ref = None, token = None\<rparr>"
        "''adobe''" "''helix-fetch''" "constant_server 401 ''denied''"
        "\<lparr>resp_status = 401, resp_text = ''denied''\<rparr>"
        "\<lparr>searchParams = [(''owner'', ''adobe''), (''repo'', ''helix-fetch'')], headers = []\<rparr>"]
  by (simp add: constant_server_def request_args_def request_token_def get_def js_or_def truthy_def)

text \<open>
  Claim C7, as amended. A failure of the remote service whose status is not normalised to
  404 reaches the adapter with that status. When the status lies between 200 and 599 and
  is not 304 (the statuses a \<open>Response\<close> with a body can be constructed with), the response
  of the adapter has that status if it is below 500 and status 502 if it lies between 500
  and 599.
\<close>

theorem remote_failure_status:
  assumes "truthy (owner args)" and "truthy (repo args)"
    and "fetch (discovery_request args) = Inr resp"
    and "\<not> resp_ok resp"
    and "\<not> (resp_status resp = 404 \<or> (resp_status resp = 401 \<and> \<not> truthy (token args)))"
    and "200 \<le> resp_status resp" and "resp_status resp \<le> 599"
    and "resp_status resp \<noteq> 304"
    and "request_args request = args"
  shows "fst (resolve fetch args) =
           Inl (Error (''failed to fetch git repo info (status: ''
                         @ string_of_nat (resp_status resp) @ '', body: '' @ resp_text resp @ '')'')
                      (Some (resp_status resp)))
     \<and> (\<exists>r. fst (handleRequest fetch request) = Inr r
            \<and> status r = (if 500 \<le> resp_status resp \<and> resp_status resp \<le> 599 then 502
                          else resp_status resp))"
proof -
  let ?msg = "''failed to fetch git repo info (status: ''
                @ string_of_nat (resp_status resp) @ '', body: '' @ resp_text resp @ '')''"
  have r: "fst (resolve fetch args) = Inl (Error ?msg (Some (resp_status resp)))"
    using resolve_fetched [of args fetch resp] assms(1-5) by auto
  have nz: "resp_status resp \<noteq> 0"
    using assms(6) by simp
  have "\<exists>r. respond (Inl (Error ?msg (Some (resp_status resp)))) = Inr r
          \<and> status r = (if 500 \<le> resp_status resp \<and> resp_status resp \<le> 599 then 502
                        else resp_status resp)"
    using assms(4,6,7,8)
    by (auto simp: respond_status_error [OF nz] new_response_def null_body_status_def resp_ok_def)
  with r assms(9) show ?thesis
    by (simp add: handleRequest_eq)
qed

theorem remote_failure_status_witness:
  "fst (resolve (constant_server 500 ''down'')
         \<lparr>owner = Some ''adobe'', repo = Some ''helix-fetch'', ref = None, token = None\<rparr>) =
     Inl (Error ''failed to fetch git repo info (status: 500, body: down)'' (Some 500))
   \<and> (\<exists>r. fst (handleRequest (constant_server 500 ''down'')
                 \<lparr>searchParams = [(''owner'', ''adobe''), (''repo'', ''helix-fetch'')], headers = []\<rparr>) = Inr r
          \<and> status r = 502)"
  using remote_failure_status
    [of "\<lparr>owner = Some ''adobe'', repo = Some ''helix-fetch'', ref = None, token = None\<rparr>"
        "constant_server 500 ''down''"
        "\<lparr>resp_status = 500, resp_text = ''down''\<rparr>"
        "\<lparr>searchParams = [(''owner'', ''adobe''), (''repo'', ''helix-fetch'')], headers = []\<rparr>"]
  by (simp add: constant_server_def request_args_def request_token_def get_def js_or_def
      truthy_def resp_ok_def string_of_nat_500)

text \<open>
  Without the two conditions on the status the claim fails: the adapter passes a status
  of 600, and likewise a status of 304 together with its text body, to the \<open>Response\<close>
  constructor, which throws, so the handler rejects and no response with that status is
  produced.
\<close>

theorem remote_failure_status_counterexample:
  "fst (resolve (constant_server 600 ''down'')
         \<lparr>owner = Some ''adobe'', repo = Some ''helix-fetch'', ref = None, token = None\<rparr>) =
     Inl (Error ''failed to fetch git repo info (status: 600, body: down)'' (Some 600))
   \<and> fst (handleRequest (constant_server 600 ''down'')
            \<lparr>searchParams = [(''owner'', ''adobe''), (''repo'', ''helix-fetch'')], headers = []\<rparr>) =
     Inl (RangeError response_status_message)
   \<and> fst (resolve (constant_server 304 [])
            \<lparr>owner = Some ''adobe'', repo = Some ''helix-fetch'', ref = None, token = None\<rparr>) =
     Inl (Error ''failed to fetch git repo info (status: 304, body: )'' (Some 304))
   \<and> fst (handleRequest (constant_server 304 [])
            \<lparr>searchParams = [(''owner'', ''adobe''), (''repo'', ''helix-fetch'')], headers = []\<rparr>) =
     Inl (TypeError null_body_message)"
  by (simp add: handleRequest_eq resolve_def constant_server_def request_args_def
      request_token_def get_def js_or_def truthy_def resp_ok_def string_of_nat_600
      string_of_nat_304 respond_def new_response_def null_body_status_def)

text \<open>
  Claim C8. When the remote service answers with a success status and the body splits on
  line feed into fewer than three lines, \<open>resolve\<close> rejects with the error
  \<open>corrupted response: <lines>\<close>, which carries no status, and the response of the
  adapter has status 500.
\<close>

theorem corrupted_response:
  assumes "truthy (owner args)" and "truthy (repo args)"
    and "fetch (discovery_request args) = Inr resp"
    and "resp_ok resp"
    and "length (split_on CHR 0x0A (resp_text resp)) < 3"
    and "request_args request = args"
  shows "fst (resolve fetch args) =
           Inl (Error (''corrupted response: '' @ join '','' (split_on CHR 0x0A (resp_text resp))) None)
     \<and> fst (handleRequest fetch request) =
           Inr \<lparr>status = 500, content_type = ''text/plain'',
                body = Text (''failed to fetch git repo info: Error: corrupted response: ''
                             @ join '','' (split_on CHR 0x0A (resp_text resp)) @ '')'')\<rparr>"
proof -
  let ?msg = "''corrupted response: '' @ join '','' (split_on CHR 0x0A (resp_text resp))"
  have r: "fst (resolve fetch args) = Inl (Error ?msg None)"
    using resolve_fetched [of args fetch resp] assms(1-5)
    by (simp add: parse_advertisement_def)
  have "respond (Inl (Error ?msg None)) =
          Inr \<lparr>status = 500, content_type = ''text/plain'',
               body = Text (''failed to fetch git repo info: Error: '' @ ?msg @ '')'')\<rparr>"
    by (simp add: respond_plain_error error_to_string_def new_response_def null_body_status_def)
  with r assms(6) show ?thesis
    by (simp add: handleRequest_eq)
qed

theorem corrupted_response_witness:
  "fst (resolve (constant_server 200 ''a\<newline>b'')
         \<lparr>owner = Some ''adobe'', repo = Some ''helix-fetch'', ref = Some ''main'', token = None\<rparr>) =
     Inl (Error ''corrupted response: a,b'' None)
   \<and> fst (handleRequest (constant_server 200 ''a\<newline>b'')
            \<lparr>searchParams = [(''owner'', ''adobe''), (''repo'', ''helix-fetch''), (''ref'', ''main'')],
             headers = []\<rparr>) =
     Inr \<lparr>status = 500, content_type = ''text/plain'',
          body = Text ''failed to fetch git repo info: Error: corrupted response: a,b)''\<rparr>"
  using corrupted_response
    [of "\<lparr>owner = Some ''adobe'', repo = Some ''helix-fetch'', ref = Some ''main'', token = None\<rparr>"
        "constant_server 200 ''a\<newline>b''"
        "\<lparr>resp_status = 200, resp_text = ''a\<newline>b''\<rparr>"
        "\<lparr>searchParams = [(''owner'', ''adobe''), (''repo'', ''helix-fetch''), (''ref'', ''main'')],
          headers = []\<rparr>"]
  by (simp add: constant_server_def request_args_def request_token_def get_def js_or_def
      truthy_def resp_ok_def)

section \<open>Selecting the reference\<close>


lemma row_matches_iff:
  "row_matches terms row \<longleftrightarrow> (\<exists>p0 p1. split_on CHR '' '' row = [p0, p1] \<and> p1 \<in> set terms)"
proof
  assume m: "row_matches terms row"
  then have "length (split_on CHR '' '' row) = 2"
    by (simp add: row_matches_def Let_def)
  then obtain p0 p1 where "split_on CHR '' '' row = [p0, p1]"
    by (auto simp: numeral_2_eq_2 length_Suc_conv)
  with m show "\<exists>p0 p1. split_on CHR '' '' row = [p0, p1] \<and> p1 \<in> set terms"
    by (simp add: row_matches_def)
next
  assume "\<exists>p0 p1. split_on CHR '' '' row = [p0, p1] \<and> p1 \<in> set terms"
  then show "row_matches terms row"
    by (auto simp: row_matches_def)
qed

lemma row_entry_parts:
  assumes "split_on CHR '' '' row = [p0, p1]" and "4 \<le> length p0"
  shows "row_entry row = [drop 4 p0, p1]"
proof -
  from assms(1) have row: "row = p0 @ CHR '' '' # p1"
    and p0: "CHR '' '' \<notin> set p0" and p1: "CHR '' '' \<notin> set p1"
    by (simp_all add: split_on_two)
  from row assms(2) have "substr 4 row = drop 4 p0 @ CHR '' '' # p1"
    by (simp add: substr_def)
  moreover from p0 have "CHR '' '' \<notin> set (drop 4 p0)"
    by (meson in_set_dropD)
  ultimately show ?thesis
    using p1 by (simp add: row_entry_def split_on_two)
qed

lemma select_ref_None_iff:
  "select_ref terms rows = None \<longleftrightarrow> (\<forall>row\<in>set rows. \<not> row_matches terms row)"
proof -
  have "select_ref terms rows = None \<longleftrightarrow> filter (row_matches terms) rows = []"
    by (cases "filter (row_matches terms) rows") (simp_all add: select_ref_def result_rows_def)
  then show ?thesis
    by (simp add: filter_empty_conv)
qed

lemma select_ref_first:
  assumes "i < length rows" and "row_matches terms (rows ! i)"
    and "\<forall>j<i. \<not> row_matches terms (rows ! j)"
  shows "select_ref terms rows =
           Some \<lparr>sha = nth_opt (row_entry (rows ! i)) 0, fqRef = nth_opt (row_entry (rows ! i)) 1\<rparr>"
proof -
  have rows: "rows = take i rows @ rows ! i # drop (Suc i) rows"
    using assms(1) by (simp add: id_take_nth_drop)
  have "\<forall>u\<in>set (take i rows). \<not> row_matches terms u"
    using assms(1,3) by (auto simp: in_set_conv_nth)
  then have "filter (row_matches terms) (take i rows) = []"
    by (simp add: filter_empty_conv)
  then have "filter (row_matches terms) rows =
               rows ! i # filter (row_matches terms) (drop (Suc i) rows)"
    using assms(2) by (subst rows) simp
  then show ?thesis
    by (simp add: select_ref_def result_rows_def)
qed

lemma first_match:
  assumes "\<exists>row\<in>set rows. P row"
  shows "\<exists>i<length rows. P (rows ! i) \<and> (\<forall>j<i. \<not> P (rows ! j))"
proof -
  from assms obtain n where n: "n < length rows" "P (rows ! n)"
    by (auto simp: in_set_conv_nth)
  then have "n < length rows \<and> P (rows ! n)" by simp
  then obtain k where k: "k \<le> n" "\<forall>i<k. \<not> (i < length rows \<and> P (rows ! i))"
      "k < length rows \<and> P (rows ! k)"
    using ex_least_nat_le [of "\<lambda>i. i < length rows \<and> P (rows ! i)" n] by blast
  then have "\<forall>j<k. \<not> P (rows ! j)"
    by (meson less_trans)
  with k show ?thesis by blast
qed

lemma select_ref_order:
  assumes "set terms = set terms'"
  shows "select_ref terms rows = select_ref terms' rows"
proof -
  have "row_matches terms = row_matches terms'"
    using assms by (simp add: row_matches_def fun_eq_iff)
  then show ?thesis
    by (simp add: select_ref_def result_rows_def)
qed

lemma resolve_advertised:
  assumes "truthy (owner args)" and "truthy (repo args)"
    and "fetch (discovery_request args) = Inr resp"
    and "resp_ok resp"
    and "3 \<le> length (split_on CHR 0x0A (resp_text resp))"
    and "default_branch_terms (ref args) (split_on CHR 0x0A (resp_text resp)) = Inr pushed"
  shows "resolve fetch args =
           (Inr (select_ref (ref_search_terms (ref args) @ pushed)
                   (drop 2 (split_on CHR 0x0A (resp_text resp)))),
            [discovery_request args])"
  using resolve_fetched [of args fetch resp] assms
  by (simp add: parse_advertisement_def Let_def)

lemma sample_lines:
  "split_on CHR 0x0A sample_advertisement =
     [''001e# service=git-upload-pack'', ''0000 HEAD symref=HEAD:refs/heads/main agent=git'',
      ''003daaaa refs/heads/main'', ''003dbbbb refs/tags/main'', ''003ecccc refs/heads/v1.0.0'',
      ''003ddddd refs/tags/v1.0.0'', ''0000'']"
  by (simp add: sample_advertisement_def)






lemma tag_first_lines:
  "split_on CHR 0x0A tag_first_advertisement =
     [''001e# service=git-upload-pack'', ''0000 HEAD symref=HEAD:refs/heads/main agent=git'',
      ''003dbbbb refs/tags/main'', ''003daaaa refs/heads/main'', ''0000'']"
  by (simp add: tag_first_advertisement_def)

text \<open>
  Claim C2, as amended. For a short \<open>ref\<close> (non-empty, not starting with \<open>refs/\<close>) and an
  advertisement whose lines after the two header lines include a line for
  \<open>refs/heads/<ref>\<close> and a line for \<open>refs/tags/<ref>\<close>, \<open>resolve\<close> returns the entry built
  from the first line after the header that names either of the two, a line at or before
  both given lines, and the result is the same as with the two search terms inserted in
  the opposite order. When the first part of that line has at least four units, the entry
  is the first part without its first four units as \<open>sha\<close> and the reference name as
  \<open>fqRef\<close>.
\<close>

theorem short_ref_first_line_wins:
  assumes "truthy (owner args)" and "truthy (repo args)"
    and "fetch (discovery_request args) = Inr resp"
    and "resp_ok resp"
    and "lines = split_on CHR 0x0A (resp_text resp)"
    and "rows = drop 2 lines"
    and "ref args = Some r" and "r \<noteq> []" and "\<not> starts_with r ''refs/''"
    and "i < length rows" and "split_on CHR '' '' (rows ! i) = [p, ''refs/heads/'' @ r]"
    and "j < length rows" and "split_on CHR '' '' (rows ! j) = [q, ''refs/tags/'' @ r]"
  shows "\<exists>k s n. k \<le> i \<and> k \<le> j
           \<and> split_on CHR '' '' (rows ! k) = [s, n]
           \<and> (n = ''refs/heads/'' @ r \<or> n = ''refs/tags/'' @ r)
           \<and> (\<forall>m<k. \<forall>t. split_on CHR '' '' (rows ! m) \<noteq> [t, ''refs/heads/'' @ r]
                        \<and> split_on CHR '' '' (rows ! m) \<noteq> [t, ''refs/tags/'' @ r])
           \<and> fst (resolve fetch args) =
               Inr (Some \<lparr>sha = nth_opt (row_entry (rows ! k)) 0,
                          fqRef = nth_opt (row_entry (rows ! k)) 1\<rparr>)
           \<and> (4 \<le> length s \<longrightarrow>
                fst (resolve fetch args) = Inr (Some \<lparr>sha = Some (drop 4 s), fqRef = Some n\<rparr>))
           \<and> fst (resolve fetch args) =
               Inr (select_ref [''refs/tags/'' @ r, ''refs/heads/'' @ r] rows)"
proof -
  let ?h = "''refs/heads/'' @ r" and ?t = "''refs/tags/'' @ r"
  let ?terms = "[?h, ?t]"
  have len: "3 \<le> length lines"
    using assms(6,10) by simp
  have terms: "ref_search_terms (ref args) = ?terms"
    using assms(7-9) by (simp add: ref_search_terms_def)
  have pushed: "default_branch_terms (ref args) lines = Inr []"
    using assms(7,8) by (simp add: default_branch_terms_def truthy_def)
  have res: "fst (resolve fetch args) = Inr (select_ref ?terms rows)"
    using resolve_advertised [of args fetch resp "[]"] assms(1-6) len pushed terms by simp
  have mi: "row_matches ?terms (rows ! i)"
    using assms(11) by (simp add: row_matches_iff)
  have mj: "row_matches ?terms (rows ! j)"
    using assms(13) by (simp add: row_matches_iff)
  let ?P = "\<lambda>m. m < length rows \<and> row_matches ?terms (rows ! m)"
  from assms(10) mi have "?P i" by simp
  then obtain k where k: "k \<le> i" "\<forall>m<k. \<not> ?P m" "?P k"
    using ex_least_nat_le [of ?P i] by blast
  have kj: "k \<le> j"
  proof (rule ccontr)
    assume "\<not> k \<le> j"
    then have "j < k" by simp
    with k(2) assms(12) mj show False by blast
  qed
  from k(3) obtain s n where sn: "split_on CHR '' '' (rows ! k) = [s, n]" "n \<in> set ?terms"
    by (auto simp: row_matches_iff)
  have before: "\<forall>m<k. \<not> row_matches ?terms (rows ! m)"
    using k(2,3) by (meson less_trans)
  then have before': "\<forall>m<k. \<forall>t. split_on CHR '' '' (rows ! m) \<noteq> [t, ?h]
                        \<and> split_on CHR '' '' (rows ! m) \<noteq> [t, ?t]"
    by (auto simp: row_matches_iff)
  have sel: "select_ref ?terms rows =
      Some \<lparr>sha = nth_opt (row_entry (rows ! k)) 0, fqRef = nth_opt (row_entry (rows ! k)) 1\<rparr>"
    using select_ref_first [of k rows ?terms] k(3) before by simp
  have entry: "fst (resolve fetch args) = Inr (Some \<lparr>sha = Some (drop 4 s), fqRef = Some n\<rparr>)"
    if "4 \<le> length s"
    using res sel row_entry_parts [OF sn(1) that] by simp
  have swap: "select_ref ?terms rows = select_ref [?t, ?h] rows"
    by (rule select_ref_order) auto
  from k(1) kj sn before' res sel entry swap show ?thesis
    by (intro exI [of _ k] exI [of _ s] exI [of _ n]) auto
qed

theorem short_ref_first_line_wins_witness:
  "fst (resolve (constant_server 200 tag_first_advertisement)
         \<lparr>owner = Some ''adobe'', repo = Some ''helix-fetch'', ref = Some ''main'', token = None\<rparr>) =
     Inr (Some \<lparr>sha = Some ''bbbb'', fqRef = Some ''refs/tags/main''\<rparr>)"
proof -
  let ?fetch = "constant_server 200 tag_first_advertisement"
  let ?resp = "\<lparr>resp_status = 200, resp_text = tag_first_advertisement\<rparr>"
  let ?args = "\<lparr>owner = Some ''adobe'', repo = Some ''helix-fetch'', ref = Some ''main'', token = None\<rparr>"
  let ?lines = "[''001e# service=git-upload-pack'', ''0000 HEAD symref=HEAD:refs/heads/main agent=git'',
                 ''003dbbbb refs/tags/main'', ''003daaaa refs/heads/main'', ''0000'']"
  let ?rows = "[''003dbbbb refs/tags/main'', ''003daaaa refs/heads/main'', ''0000'']"
  have "\<exists>k s n. k \<le> 1 \<and> k \<le> 0
           \<and> split_on CHR '' '' (?rows ! k) = [s, n]
           \<and> (n = ''refs/heads/'' @ ''main'' \<or> n = ''refs/tags/'' @ ''main'')
           \<and> (\<forall>m<k. \<forall>t. split_on CHR '' '' (?rows ! m) \<noteq> [t, ''refs/heads/'' @ ''main'']
                        \<and> split_on CHR '' '' (?rows ! m) \<noteq> [t, ''refs/tags/'' @ ''main''])
           \<and> fst (resolve ?fetch ?args) =
               Inr (Some \<lparr>sha = nth_opt (row_entry (?rows ! k)) 0,
                          fqRef = nth_opt (row_entry (?rows ! k)) 1\<rparr>)
           \<and> (4 \<le> length s \<longrightarrow>
                fst (resolve ?fetch ?args) = Inr (Some \<lparr>sha = Some (drop 4 s), fqRef = Some n\<rparr>))
           \<and> fst (resolve ?fetch ?args) =
               Inr (select_ref [''refs/tags/'' @ ''main'', ''refs/heads/'' @ ''main''] ?rows)"
  proof (rule short_ref_first_line_wins
      [of ?args ?fetch ?resp ?lines ?rows "''main''" 1 "''003daaaa''" 0 "''003dbbbb''"])
    show "truthy (owner ?args)" "truthy (repo ?args)"
      by (simp_all add: truthy_def)
    show "?fetch (discovery_request ?args) = Inr ?resp"
      by (simp add: constant_server_def)
    show "resp_ok ?resp"
      by (simp add: resp_ok_def)
    show "?lines = split_on CHR 0x0A (resp_text ?resp)"
      by (simp add: tag_first_lines)
    show "?rows = drop 2 ?lines"
      by simp
    show "ref ?args = Some ''main''" "''main'' \<noteq> []" "\<not> starts_with ''main'' ''refs/''"
      by (simp_all add: starts_with_def)
    show "1 < length ?rows" "0 < length ?rows"
      by simp_all
    show "split_on CHR '' '' (?rows ! 1) = [''003daaaa'', ''refs/heads/'' @ ''main'']"
      by simp
    show "split_on CHR '' '' (?rows ! 0) = [''003dbbbb'', ''refs/tags/'' @ ''main'']"
      by simp
  qed
  then obtain k s n where k: "k \<le> (0::nat)"
    and sn: "split_on CHR '' '' (?rows ! k) = [s, n]"
    and res: "4 \<le> length s \<longrightarrow>
                fst (resolve ?fetch ?args) = Inr (Some \<lparr>sha = Some (drop 4 s), fqRef = Some n\<rparr>)"
    by blast
  from k have "k = 0" by simp
  with sn have "s = ''003dbbbb''" "n = ''refs/tags/main''"
    by simp_all
  with res show ?thesis by simp
qed

lemma short_tag_first_lines:
  "split_on CHR 0x0A short_tag_first_advertisement =
     [''001e# service=git-upload-pack'', ''0000 HEAD symref=HEAD:refs/heads/main agent=git'',
      ''ab refs/tags/main'', ''003daaaa refs/heads/main'', ''0000'']"
  by (simp add: short_tag_first_advertisement_def)

lemma tag_on_second_line_lines:
  "split_on CHR 0x0A tag_on_second_line_advertisement =
     [''001e# service=git-upload-pack'', ''003dbbbb refs/tags/main'',
      ''003daaaa refs/heads/main'', ''0000'']"
  by (simp add: tag_on_second_line_advertisement_def)

text \<open>
  Without the two restrictions the claim fails. A line for the tag whose first part has
  two units only comes before the line for the branch and wins, but \<open>substr(4)\<close> cuts into
  its reference name: the \<open>sha\<close> returned is \<open>efs/tags/main\<close> and \<open>fqRef\<close> is \<open>undefined\<close>.
  And a line for the tag on the second line of the body is removed with the header, so the
  later line for the branch is returned.
\<close>

theorem short_ref_first_line_wins_counterexample:
  "split_on CHR 0x0A short_tag_first_advertisement ! 2 = ''ab refs/tags/main''
   \<and> split_on CHR 0x0A short_tag_first_advertisement ! 3 = ''003daaaa refs/heads/main''
   \<and> split_on CHR '' '' ''ab refs/tags/main'' = [''ab'', ''refs/tags/main'']
   \<and> fst (resolve (constant_server 200 short_tag_first_advertisement)
            \<lparr>owner = Some ''adobe'', repo = Some ''helix-fetch'', ref = Some ''main'', token = None\<rparr>) =
       Inr (Some \<lparr>sha = Some ''efs/tags/main'', fqRef = None\<rparr>)
   \<and> split_on CHR 0x0A tag_on_second_line_advertisement ! 1 = ''003dbbbb refs/tags/main''
   \<and> split_on CHR 0x0A tag_on_second_line_advertisement ! 2 = ''003daaaa refs/heads/main''
   \<and> fst (resolve (constant_server 200 tag_on_second_line_advertisement)
            \<lparr>owner = Some ''adobe'', repo = Some ''helix-fetch'', ref = Some ''main'', token = None\<rparr>) =
       Inr (Some \<lparr>sha = Some ''aaaa'', fqRef = Some ''refs/heads/main''\<rparr>)"
proof -
  have short: "fst (resolve (constant_server 200 short_tag_first_advertisement)
            \<lparr>owner = Some ''adobe'', repo = Some ''helix-fetch'', ref = Some ''main'', token = None\<rparr>) =
       Inr (Some \<lparr>sha = Some ''efs/tags/main'', fqRef = None\<rparr>)"
    by (simp add: resolve_def constant_server_def truthy_def resp_ok_def parse_advertisement_def
        short_tag_first_lines default_branch_terms_def ref_search_terms_def starts_with_def
        select_ref_def result_rows_def row_matches_def row_entry_def substr_def)
  have header: "fst (resolve (constant_server 200 tag_on_second_line_advertisement)
            \<lparr>owner = Some ''adobe'', repo = Some ''helix-fetch'', ref = Some ''main'', token = None\<rparr>) =
       Inr (Some \<lparr>sha = Some ''aaaa'', fqRef = Some ''refs/heads/main''\<rparr>)"
    by (simp add: resolve_def constant_server_def truthy_def resp_ok_def parse_advertisement_def
        tag_on_second_line_lines default_branch_terms_def ref_search_terms_def starts_with_def
        select_ref_def result_rows_def row_matches_def row_entry_def substr_def)
  from short header show ?thesis
    by (simp add: short_tag_first_lines tag_on_second_line_lines)
qed

lemma short_prefix_lines:
  "split_on CHR 0x0A short_prefix_advertisement =
     [''001e# service=git-upload-pack'', ''0000 HEAD symref=HEAD:refs/heads/main agent=git'',
      ''ab refs/heads/x'', ''0000'']"
  by (simp add: short_prefix_advertisement_def)

text \<open>
  Claim C3, as amended. For an advertisement of at least three lines, a line after the two
  header lines passes the filter exactly when splitting it on the space yields exactly two
  parts and the second part is a search term. For each such line whose first part has at
  least four units, the entry built from it is the first part without its first four units
  and the second part verbatim; when such a line is the first that passes the filter,
  \<open>resolve\<close> returns that \<open>sha\<close> and \<open>fqRef\<close>.
\<close>

theorem candidate_rows_and_entries:
  assumes "truthy (owner args)" and "truthy (repo args)"
    and "fetch (discovery_request args) = Inr resp"
    and "resp_ok resp"
    and "lines = split_on CHR 0x0A (resp_text resp)"
    and "3 \<le> length lines"
    and "default_branch_terms (ref args) lines = Inr pushed"
    and "terms = ref_search_terms (ref args) @ pushed"
    and "rows = drop 2 lines"
  shows "(\<forall>row\<in>set rows. row_matches terms row \<longleftrightarrow>
            (\<exists>p0 p1. split_on CHR '' '' row = [p0, p1] \<and> p1 \<in> set terms))
     \<and> (\<forall>row\<in>set rows. \<forall>p0 p1.
            split_on CHR '' '' row = [p0, p1] \<and> p1 \<in> set terms \<and> 4 \<le> length p0
            \<longrightarrow> row_entry row = [drop 4 p0, p1])
     \<and> (\<forall>i<length rows. \<forall>p0 p1.
            split_on CHR '' '' (rows ! i) = [p0, p1] \<and> p1 \<in> set terms \<and> 4 \<le> length p0
            \<and> (\<forall>j<i. \<not> row_matches terms (rows ! j))
            \<longrightarrow> fst (resolve fetch args) = Inr (Some \<lparr>sha = Some (drop 4 p0), fqRef = Some p1\<rparr>))"
proof -
  have res: "fst (resolve fetch args) = Inr (select_ref terms rows)"
    using resolve_advertised [of args fetch resp pushed] assms by simp
  have first: "fst (resolve fetch args) = Inr (Some \<lparr>sha = Some (drop 4 p0), fqRef = Some p1\<rparr>)"
    if "i < length rows" and "split_on CHR '' '' (rows ! i) = [p0, p1]" and "p1 \<in> set terms"
      and "4 \<le> length p0" and "\<forall>j<i. \<not> row_matches terms (rows ! j)"
    for i p0 p1
  proof -
    have "row_matches terms (rows ! i)"
      using that(2,3) by (auto simp: row_matches_iff)
    then have "select_ref terms rows =
        Some \<lparr>sha = nth_opt (row_entry (rows ! i)) 0, fqRef = nth_opt (row_entry (rows ! i)) 1\<rparr>"
      using select_ref_first [of i rows terms] that(1,5) by simp
    with res row_entry_parts [OF that(2,4)] show ?thesis by simp
  qed
  show ?thesis
  proof (intro conjI)
    show "\<forall>row\<in>set rows. row_matches terms row \<longleftrightarrow>
            (\<exists>p0 p1. split_on CHR '' '' row = [p0, p1] \<and> p1 \<in> set terms)"
      by (simp add: row_matches_iff)
    show "\<forall>row\<in>set rows. \<forall>p0 p1.
            split_on CHR '' '' row = [p0, p1] \<and> p1 \<in> set terms \<and> 4 \<le> length p0
            \<longrightarrow> row_entry row = [drop 4 p0, p1]"
      using row_entry_parts by blast
    show "\<forall>i<length rows. \<forall>p0 p1.
            split_on CHR '' '' (rows ! i) = [p0, p1] \<and> p1 \<in> set terms \<and> 4 \<le> length p0
            \<and> (\<forall>j<i. \<not> row_matches terms (rows ! j))
            \<longrightarrow> fst (resolve fetch args) = Inr (Some \<lparr>sha = Some (drop 4 p0), fqRef = Some p1\<rparr>)"
      using first by blast
  qed
qed

theorem candidate_rows_and_entries_witness:
  "row_matches [''refs/heads/main'', ''refs/tags/main''] ''003dbbbb refs/tags/main''
   \<and> row_entry ''003dbbbb refs/tags/main'' = [''bbbb'', ''refs/tags/main'']
   \<and> fst (resolve (constant_server 200 sample_advertisement)
            \<lparr>owner = Some ''adobe'', repo = Some ''helix-fetch'', ref = Some ''main'', token = None\<rparr>) =
       Inr (Some \<lparr>sha = Some ''aaaa'', fqRef = Some ''refs/heads/main''\<rparr>)"
proof -
  let ?fetch = "constant_server 200 sample_advertisement"
  let ?resp = "\<lparr>resp_status = 200, resp_text = sample_advertisement\<rparr>"
  let ?args = "\<lparr>owner = Some ''adobe'', repo = Some ''helix-fetch'', ref = Some ''main'', token = None\<rparr>"
  let ?lines = "[''001e# service=git-upload-pack'', ''0000 HEAD symref=HEAD:refs/heads/main agent=git'',
                 ''003daaaa refs/heads/main'', ''003dbbbb refs/tags/main'',
                 ''003ecccc refs/heads/v1.0.0'', ''003ddddd refs/tags/v1.0.0'', ''0000'']"
  let ?rows = "[''003daaaa refs/heads/main'', ''003dbbbb refs/tags/main'',
                ''003ecccc refs/heads/v1.0.0'', ''003ddddd refs/tags/v1.0.0'', ''0000'']"
  let ?terms = "[''refs/heads/main'', ''refs/tags/main'']"
  have all: "(\<forall>row\<in>set ?rows. row_matches ?terms row \<longleftrightarrow>
            (\<exists>p0 p1. split_on CHR '' '' row = [p0, p1] \<and> p1 \<in> set ?terms))
     \<and> (\<forall>row\<in>set ?rows. \<forall>p0 p1.
            split_on CHR '' '' row = [p0, p1] \<and> p1 \<in> set ?terms \<and> 4 \<le> length p0
            \<longrightarrow> row_entry row = [drop 4 p0, p1])
     \<and> (\<forall>i<length ?rows. \<forall>p0 p1.
            split_on CHR '' '' (?rows ! i) = [p0, p1] \<and> p1 \<in> set ?terms \<and> 4 \<le> length p0
            \<and> (\<forall>j<i. \<not> row_matches ?terms (?rows ! j))
            \<longrightarrow> fst (resolve ?fetch ?args) = Inr (Some \<lparr>sha = Some (drop 4 p0), fqRef = Some p1\<rparr>))"
  proof (rule candidate_rows_and_entries [of ?args ?fetch ?resp ?lines "[]" ?terms ?rows])
    show "truthy (owner ?args)" "truthy (repo ?args)"
      by (simp_all add: truthy_def)
    show "?fetch (discovery_request ?args) = Inr ?resp"
      by (simp add: constant_server_def)
    show "resp_ok ?resp"
      by (simp add: resp_ok_def)
    show "?lines = split_on CHR 0x0A (resp_text ?resp)"
      by (simp add: sample_lines)
    show "3 \<le> length ?lines"
      by simp
    show "default_branch_terms (ref ?args) ?lines = Inr []"
      by (simp add: default_branch_terms_def truthy_def)
    show "?terms = ref_search_terms (ref ?args) @ []"
      by (simp add: ref_search_terms_def starts_with_def)
    show "?rows = drop 2 ?lines"
      by simp
  qed
  have tag: "split_on CHR '' '' ''003dbbbb refs/tags/main'' = [''003dbbbb'', ''refs/tags/main'']"
    by simp
  have head: "split_on CHR '' '' (?rows ! 0) = [''003daaaa'', ''refs/heads/main'']"
    by simp
  have m: "row_matches ?terms ''003dbbbb refs/tags/main''"
    using all [THEN conjunct1, THEN bspec, of "''003dbbbb refs/tags/main''"] tag by simp
  have e: "row_entry ''003dbbbb refs/tags/main'' = [''bbbb'', ''refs/tags/main'']"
    using all [THEN conjunct2, THEN conjunct1, THEN bspec, of "''003dbbbb refs/tags/main''",
        THEN spec, THEN spec, THEN mp, of "''003dbbbb''" "''refs/tags/main''"] tag
    by simp
  have r: "fst (resolve ?fetch ?args) =
       Inr (Some \<lparr>sha = Some ''aaaa'', fqRef = Some ''refs/heads/main''\<rparr>)"
    using all [THEN conjunct2, THEN conjunct2, THEN spec, THEN mp, of 0,
        THEN spec, THEN spec, THEN mp, of "''003daaaa''" "''refs/heads/main''"] head
    by simp
  from m e r show ?thesis by simp
qed

text \<open>
  Without the bound on the first part the claim fails: \<open>substr(4)\<close> is applied to the whole
  line before it is split again, so for the line \<open>ab refs/heads/x\<close> it removes the space
  and the first letter of the reference name; the \<open>sha\<close> returned is \<open>efs/heads/x\<close> and
  \<open>fqRef\<close> is \<open>undefined\<close>.
\<close>

theorem candidate_rows_and_entries_counterexample:
  "split_on CHR '' '' ''ab refs/heads/x'' = [''ab'', ''refs/heads/x'']
   \<and> ''refs/heads/x'' \<in> set (ref_search_terms (Some ''x''))
   \<and> fst (resolve (constant_server 200 short_prefix_advertisement)
            \<lparr>owner = Some ''adobe'', repo = Some ''helix-fetch'', ref = Some ''x'', token = None\<rparr>) =
       Inr (Some \<lparr>sha = Some ''efs/heads/x'', fqRef = None\<rparr>)
   \<and> fst (resolve (constant_server 200 short_prefix_advertisement)
            \<lparr>owner = Some ''adobe'', repo = Some ''helix-fetch'', ref = Some ''x'', token = None\<rparr>) \<noteq>
       Inr (Some \<lparr>sha = Some (drop 4 ''ab''), fqRef = Some ''refs/heads/x''\<rparr>)"
proof -
  have "fst (resolve (constant_server 200 short_prefix_advertisement)
            \<lparr>owner = Some ''adobe'', repo = Some ''helix-fetch'', ref = Some ''x'', token = None\<rparr>) =
       Inr (Some \<lparr>sha = Some ''efs/heads/x'', fqRef = None\<rparr>)"
    by (simp add: resolve_def constant_server_def truthy_def resp_ok_def parse_advertisement_def
        short_prefix_lines default_branch_terms_def ref_search_terms_def starts_with_def
        select_ref_def result_rows_def row_matches_def row_entry_def substr_def)
  then show ?thesis
    by (simp add: ref_search_terms_def starts_with_def)
qed

text \<open>
  Claim C5. For a \<open>ref\<close> that starts with \<open>refs/\<close> the search terms are that one name and
  nothing is pushed for the default branch. A reference line passes the filter exactly when
  its second part equals \<open>ref\<close>, so \<open>resolve\<close> returns \<open>null\<close> when no line names \<open>ref\<close>
  exactly and otherwise the entry of a line that does; a branch of the same short name as a
  requested tag is never matched.
\<close>

theorem qualified_ref_exact_match:
  assumes "truthy (owner args)" and "truthy (repo args)"
    and "fetch (discovery_request args) = Inr resp"
    and "resp_ok resp"
    and "lines = split_on CHR 0x0A (resp_text resp)"
    and "3 \<le> length lines"
    and "rows = drop 2 lines"
    and "ref args = Some r" and "starts_with r ''refs/''"
  shows "ref_search_terms (ref args) = [r]
     \<and> default_branch_terms (ref args) lines = Inr []
     \<and> (\<forall>row\<in>set rows. row_matches [r] row \<longleftrightarrow> (\<exists>p0. split_on CHR '' '' row = [p0, r]))
     \<and> ((\<forall>row\<in>set rows. \<forall>p0. split_on CHR '' '' row \<noteq> [p0, r])
          \<longrightarrow> fst (resolve fetch args) = Inr None)
     \<and> ((\<exists>row\<in>set rows. \<exists>p0. split_on CHR '' '' row = [p0, r])
          \<longrightarrow> (\<exists>row\<in>set rows. \<exists>p0. split_on CHR '' '' row = [p0, r]
                 \<and> fst (resolve fetch args) =
                     Inr (Some \<lparr>sha = nth_opt (row_entry row) 0, fqRef = nth_opt (row_entry row) 1\<rparr>)
                 \<and> (4 \<le> length p0 \<longrightarrow>
                      fst (resolve fetch args) =
                        Inr (Some \<lparr>sha = Some (drop 4 p0), fqRef = Some r\<rparr>))))"
proof -
  from assms(9) have nonempty: "r \<noteq> []"
    by (auto simp: starts_with_iff)
  have terms: "ref_search_terms (ref args) = [r]"
    using assms(8,9) nonempty by (simp add: ref_search_terms_def)
  have pushed: "default_branch_terms (ref args) lines = Inr []"
    using assms(8) nonempty by (simp add: default_branch_terms_def truthy_def)
  have res: "fst (resolve fetch args) = Inr (select_ref [r] rows)"
    using resolve_advertised [of args fetch resp "[]"] assms(1-7) pushed terms by simp
  have matches: "row_matches [r] row \<longleftrightarrow> (\<exists>p0. split_on CHR '' '' row = [p0, r])" for row
    by (auto simp: row_matches_iff)
  have absent: "fst (resolve fetch args) = Inr None"
    if "\<forall>row\<in>set rows. \<forall>p0. split_on CHR '' '' row \<noteq> [p0, r]"
  proof -
    from that have "\<forall>row\<in>set rows. \<not> row_matches [r] row"
      by (simp add: matches)
    then show ?thesis
      using res by (simp add: select_ref_None_iff)
  qed
  have found: "\<exists>row\<in>set rows. \<exists>p0. split_on CHR '' '' row = [p0, r]
                 \<and> fst (resolve fetch args) =
                     Inr (Some \<lparr>sha = nth_opt (row_entry row) 0, fqRef = nth_opt (row_entry row) 1\<rparr>)
                 \<and> (4 \<le> length p0 \<longrightarrow>
                      fst (resolve fetch args) =
                        Inr (Some \<lparr>sha = Some (drop 4 p0), fqRef = Some r\<rparr>))"
    if "\<exists>row\<in>set rows. \<exists>p0. split_on CHR '' '' row = [p0, r]"
  proof -
    from that have "\<exists>row\<in>set rows. row_matches [r] row"
      by (simp add: matches)
    from first_match [OF this] obtain i where i: "i < length rows" "row_matches [r] (rows ! i)"
        "\<forall>j<i. \<not> row_matches [r] (rows ! j)"
      by blast
    from i(2) obtain p0 where p0: "split_on CHR '' '' (rows ! i) = [p0, r]"
      using matches by blast
    have sel: "fst (resolve fetch args) =
        Inr (Some \<lparr>sha = nth_opt (row_entry (rows ! i)) 0, fqRef = nth_opt (row_entry (rows ! i)) 1\<rparr>)"
      using res select_ref_first [OF i] by simp
    have "fst (resolve fetch args) = Inr (Some \<lparr>sha = Some (drop 4 p0), fqRef = Some r\<rparr>)"
      if "4 \<le> length p0"
      using sel row_entry_parts [OF p0 that] by simp
    with i(1) p0 sel show ?thesis
      by (intro bexI [of _ "rows ! i"] exI [of _ p0]) auto
  qed
  from terms pushed matches absent found show ?thesis
    by blast
qed

theorem qualified_ref_exact_match_witness:
  "ref_search_terms (Some ''refs/tags/v1.0.0'') = [''refs/tags/v1.0.0'']
   \<and> \<not> row_matches [''refs/tags/v1.0.0''] ''003ecccc refs/heads/v1.0.0''
   \<and> fst (resolve (constant_server 200 sample_advertisement)
            \<lparr>owner = Some ''adobe'', repo = Some ''helix-fetch'', ref = Some ''refs/tags/v1.0.0'',
             token = None\<rparr>) =
       Inr (Some \<lparr>sha = Some ''dddd'', fqRef = Some ''refs/tags/v1.0.0''\<rparr>)"
proof -
  let ?fetch = "constant_server 200 sample_advertisement"
  let ?resp = "\<lparr>resp_status = 200, resp_text = sample_advertisement\<rparr>"
  let ?r = "''refs/tags/v1.0.0''"
  let ?args = "\<lparr>owner = Some ''adobe'', repo = Some ''helix-fetch'', ref = Some ?r, token = None\<rparr>"
  let ?lines = "[''001e# service=git-upload-pack'', ''0000 HEAD symref=HEAD:refs/heads/main agent=git'',
                 ''003daaaa refs/heads/main'', ''003dbbbb refs/tags/main'',
                 ''003ecccc refs/heads/v1.0.0'', ''003ddddd refs/tags/v1.0.0'', ''0000'']"
  let ?rows = "[''003daaaa refs/heads/main'', ''003dbbbb refs/tags/main'',
                ''003ecccc refs/heads/v1.0.0'', ''003ddddd refs/tags/v1.0.0'', ''0000'']"
  have all: "ref_search_terms (ref ?args) = [?r]
     \<and> default_branch_terms (ref ?args) ?lines = Inr []
     \<and> (\<forall>row\<in>set ?rows. row_matches [?r] row \<longleftrightarrow> (\<exists>p0. split_on CHR '' '' row = [p0, ?r]))
     \<and> ((\<forall>row\<in>set ?rows. \<forall>p0. split_on CHR '' '' row \<noteq> [p0, ?r])
          \<longrightarrow> fst (resolve ?fetch ?args) = Inr None)
     \<and> ((\<exists>row\<in>set ?rows. \<exists>p0. split_on CHR '' '' row = [p0, ?r])
          \<longrightarrow> (\<exists>row\<in>set ?rows. \<exists>p0. split_on CHR '' '' row = [p0, ?r]
                 \<and> fst (resolve ?fetch ?args) =
                     Inr (Some \<lparr>sha = nth_opt (row_entry row) 0, fqRef = nth_opt (row_entry row) 1\<rparr>)
                 \<and> (4 \<le> length p0 \<longrightarrow>
                      fst (resolve ?fetch ?args) =
                        Inr (Some \<lparr>sha = Some (drop 4 p0), fqRef = Some ?r\<rparr>))))"
  proof (rule qualified_ref_exact_match [of ?args ?fetch ?resp ?lines ?rows ?r])
    show "truthy (owner ?args)" "truthy (repo ?args)"
      by (simp_all add: truthy_def)
    show "?fetch (discovery_request ?args) = Inr ?resp"
      by (simp add: constant_server_def)
    show "resp_ok ?resp"
      by (simp add: resp_ok_def)
    show "?lines = split_on CHR 0x0A (resp_text ?resp)"
      by (simp add: sample_lines)
    show "3 \<le> length ?lines"
      by simp
    show "?rows = drop 2 ?lines"
      by simp
    show "ref ?args = Some ?r"
      by simp
    show "starts_with ?r ''refs/''"
      by (simp add: starts_with_def)
  qed
  have terms: "ref_search_terms (Some ?r) = [?r]"
    using all by simp
  have branch: "\<not> row_matches [?r] ''003ecccc refs/heads/v1.0.0''"
    using all [THEN conjunct2, THEN conjunct2, THEN conjunct1, THEN bspec,
        of "''003ecccc refs/heads/v1.0.0''"]
    by simp
  have "\<exists>row\<in>set ?rows. \<exists>p0. split_on CHR '' '' row = [p0, ?r]"
    by simp
  with all obtain row p0 where row: "row \<in> set ?rows" and p0: "split_on CHR '' '' row = [p0, ?r]"
    and res: "4 \<le> length p0 \<longrightarrow>
               fst (resolve ?fetch ?args) = Inr (Some \<lparr>sha = Some (drop 4 p0), fqRef = Some ?r\<rparr>)"
    by blast
  from row p0 have "p0 = ''003ddddd''"
    by auto
  with res have "fst (resolve ?fetch ?args) = Inr (Some \<lparr>sha = Some ''dddd'', fqRef = Some ?r\<rparr>)"
    by simp
  with terms branch show ?thesis by simp
qed

end
